theory Spec2Isabelle
  imports Main
begin

section \<open>Python values used by app.py\<close>

text \<open>
  A Python \<open>str\<close> is a sequence of Unicode code points, indexed and sliced by code
  point. It is modelled as a list of code points, so that \<open>str.strip()\<close> can remove
  every character Python counts as whitespace, not only the ASCII ones. The string
  literals of the source (error messages, dictionary keys) are ASCII and are written as
  HOL strings; \<open>py_str\<close> reads one as a Python \<open>str\<close>.
\<close>

type_synonym pystr = "nat list"

definition py_str :: "string \<Rightarrow> pystr" where
  "py_str s = map of_char s"

text \<open>
  \<open>str.isspace\<close> on one character: U+0009..U+000D, U+001C..U+0020, U+0085, U+00A0,
  U+1680, U+2000..U+200A, U+2028, U+2029, U+202F, U+205F and U+3000.
\<close>

definition py_isspace :: "nat \<Rightarrow> bool" where
  "py_isspace c =
     ((9 \<le> c \<and> c \<le> 13) \<or> (28 \<le> c \<and> c \<le> 32) \<or> c = 133 \<or> c = 160 \<or> c = 5760 \<or>
      (8192 \<le> c \<and> c \<le> 8202) \<or> c = 8232 \<or> c = 8233 \<or> c = 8239 \<or> c = 8287 \<or>
      c = 12288)"

text \<open>\<open>s.strip()\<close> with no argument: whitespace is removed at both ends.\<close>

definition py_strip :: "pystr \<Rightarrow> pystr" where
  "py_strip s = rev (dropWhile py_isspace (rev (dropWhile py_isspace s)))"



text \<open>\<open>x or d\<close> on a \<open>str\<close> and on an \<open>Optional[str]\<close>: \<open>None\<close> and \<open>""\<close> are falsy.\<close>

definition str_or :: "pystr \<Rightarrow> pystr \<Rightarrow> pystr" where
  "str_or x d = (if x = [] then d else x)"

definition opt_str_or :: "pystr option \<Rightarrow> pystr \<Rightarrow> pystr" where
  "opt_str_or x d = (case x of None \<Rightarrow> d | Some v \<Rightarrow> str_or v d)"

text \<open>
  Exceptions. \<open>except Exception\<close> catches every exception class derived from
  \<open>Exception\<close>; \<open>KeyboardInterrupt\<close>, \<open>SystemExit\<close> and the like derive from
  \<open>BaseException\<close> only and pass through it.
\<close>

datatype py_exn = RuntimeError string | OtherException string | NonException string

fun is_Exception :: "py_exn \<Rightarrow> bool" where
  "is_Exception (RuntimeError _) = True"
| "is_Exception (OtherException _) = True"
| "is_Exception (NonException _) = False"

section \<open>The NLP model\<close>

text \<open>
  What the handler reads of a spaCy \<open>Doc\<close>: its entity spans (\<open>doc.ents\<close>, each with
  \<open>start_char\<close>, \<open>end_char\<close>, \<open>label_\<close> and \<open>text\<close>) and its tokens (iterating the
  \<open>Doc\<close>, each with \<open>text\<close>).
\<close>

record span =
  ent_start_char :: int
  ent_end_char :: int
  ent_label :: pystr
  ent_text :: pystr

record token =
  tok_text :: pystr

record doc =
  ents :: "span list"
  toks :: "token list"

text \<open>
  The loaded pipeline \<open>nlp\<close> is a parameter of the model. A call may raise, and it is
  the only effect of the handler: the pipeline's state \<open>'m\<close> is passed through every
  call, so that a call that happened shows in the state.
\<close>

type_synonym 'm nlp = "'m \<Rightarrow> pystr \<Rightarrow> (py_exn + doc) \<times> 'm"

section \<open>Loading the model at import time (lines 20 to 23)\<close>

text \<open>
  \<open>spacy_load\<close> stands for \<open>spacy.load("en_core_web_sm")\<close>, with the state \<open>'s\<close> of
  what it reads (the installed packages) passed through the call.
\<close>

definition load_nlp :: "('s \<Rightarrow> (py_exn + 'n) \<times> 's) \<Rightarrow> 's \<Rightarrow> (py_exn + 'n) \<times> 's" where
  "load_nlp spacy_load s =
     (case spacy_load s of
        (Inr nlp, s') \<Rightarrow> (Inr nlp, s')
      | (Inl e, s') \<Rightarrow>
          if is_Exception e
          then (Inl (RuntimeError ''Run: python -m spacy download en_core_web_sm''), s')
          else (Inl e, s'))"

section \<open>The request and response types\<close>

text \<open>
  \<open>PredictIn\<close>: \<open>text: str\<close>, \<open>tokens: Optional[List[str]] = None\<close>,
  \<open>domain: Optional[str] = None\<close> (fields \<open>in_text\<close>, \<open>in_tokens\<close>, \<open>in_domain\<close>).
\<close>

record PredictIn =
  in_text :: pystr
  in_tokens :: "pystr list option"
  in_domain :: "pystr option"

text \<open>The entity dictionary: keys \<open>start\<close>, \<open>end\<close>, \<open>label\<close>, \<open>text\<close>.\<close>

record entity_record =
  e_start :: int
  e_end :: int
  e_label :: pystr
  e_text :: pystr

text \<open>The response dictionary: keys \<open>text\<close>, \<open>entities\<close>, \<open>tokens\<close>, \<open>domain\<close>.\<close>

record predict_out =
  out_text :: pystr
  out_entities :: "entity_record list"
  out_tokens :: "pystr list"
  out_domain :: pystr

text \<open>
  How a request can fail: \<open>HTTPException(status_code, detail)\<close> raised by the handler,
  the framework's rejection of a body that is not a \<open>PredictIn\<close>, and an exception of the
  model call, which the handler does not catch.
\<close>

datatype error = HTTPException nat string | RequestValidationError | Unhandled py_exn

section \<open>The handlers\<close>

definition predict :: "'m nlp \<Rightarrow> 'm \<Rightarrow> PredictIn \<Rightarrow> (error + predict_out) \<times> 'm" where
  "predict nlp m payload =
     (let text = py_strip (str_or (in_text payload) [])
      in if text = [] then (Inl (HTTPException 400 ''Text is required''), m)
         else
           (case nlp m text of
              (Inl e, m') \<Rightarrow> (Inl (Unhandled e), m')
            | (Inr d, m') \<Rightarrow>
                (let entities =
                       map (\<lambda>ent. \<lparr>e_start = ent_start_char ent, e_end = ent_end_char ent,
                                   e_label = ent_label ent, e_text = ent_text ent\<rparr>) (ents d);
                     tokens =
                       (case in_tokens payload of
                          None \<Rightarrow> map tok_text (toks d)
                        | Some ts \<Rightarrow> if ts = [] then map tok_text (toks d) else ts)
                 in (Inr \<lparr>out_text = text, out_entities = entities, out_tokens = tokens,
                          out_domain = opt_str_or (in_domain payload) []\<rparr>, m'))))"

definition health :: "(string \<times> string) list" where
  "health = [(''status'', ''ok'')]"

section \<open>The application\<close>

text \<open>
  A JSON body as it arrives, each key present or not. The framework builds the
  \<open>PredictIn\<close> before it calls \<open>predict\<close>: \<open>text\<close> has no default, so a body without
  it is rejected there.
\<close>

record json_body =
  body_text :: "pystr option"
  body_tokens :: "pystr list option"
  body_domain :: "pystr option"

definition parse_PredictIn :: "json_body \<Rightarrow> error + PredictIn" where
  "parse_PredictIn b =
     (case body_text b of
        None \<Rightarrow> Inl RequestValidationError
      | Some t \<Rightarrow> Inr \<lparr>in_text = t, in_tokens = body_tokens b, in_domain = body_domain b\<rparr>)"

datatype request = POST_predict json_body | GET_health

datatype reply = PredictReply "error + predict_out" | HealthReply "(string \<times> string) list"

definition handle :: "'m nlp \<Rightarrow> 'm \<Rightarrow> request \<Rightarrow> reply \<times> 'm" where
  "handle nlp m req =
     (case req of
        POST_predict b \<Rightarrow>
          (case parse_PredictIn b of
             Inl e \<Rightarrow> (PredictReply (Inl e), m)
           | Inr payload \<Rightarrow> (case predict nlp m payload of (r, m') \<Rightarrow> (PredictReply r, m')))
      | GET_health \<Rightarrow> (HealthReply health, m))"

fun serve :: "'m nlp \<Rightarrow> 'm \<Rightarrow> request list \<Rightarrow> reply list \<times> 'm" where
  "serve nlp m [] = ([], m)"
| "serve nlp m (req # reqs) =
     (case handle nlp m req of
        (x, m') \<Rightarrow> (case serve nlp m' reqs of (xs, m'') \<Rightarrow> (x # xs, m'')))"

text \<open>
  The module from top to bottom: the model is loaded first; an exception there ends the
  import, and the routes that follow are never served.
\<close>

definition run_app ::
  "('s \<Rightarrow> (py_exn + 'm nlp) \<times> 's) \<Rightarrow> 's \<Rightarrow> 'm \<Rightarrow> request list \<Rightarrow> (py_exn + reply list \<times> 'm) \<times> 's"
  where
  "run_app spacy_load s m reqs =
     (case load_nlp spacy_load s of
        (Inl e, s') \<Rightarrow> (Inl e, s')
      | (Inr nlp, s') \<Rightarrow> (Inr (serve nlp m reqs), s'))"

section \<open>Sample models and requests\<close>

text \<open>
  A pipeline that counts its calls, reports the first five characters as one entity and
  the whole text as one token; one that always raises; a loader that fails on the first
  attempt and would succeed on the second.
\<close>

definition nlp_demo :: "nat nlp" where
  "nlp_demo k t =
     (Inr \<lparr>ents = [\<lparr>ent_start_char = 0, ent_end_char = 5, ent_label = py_str ''PERSON'',
                    ent_text = take 5 t\<rparr>],
           toks = [\<lparr>tok_text = t\<rparr>]\<rparr>, Suc k)"

definition nlp_raises :: "nat nlp" where
  "nlp_raises k t = (Inl (OtherException ''model failure''), Suc k)"

definition flaky_load :: "nat \<Rightarrow> (py_exn + nat nlp) \<times> nat" where
  "flaky_load k =
     (if k = 0 then (Inl (OtherException ''[E050] Can't find model''), Suc k)
      else (Inr nlp_demo, Suc k))"

definition req_hello :: PredictIn where
  "req_hello = \<lparr>in_text = py_str ''  Hello world '', in_tokens = Some [py_str ''Hi'', py_str ''there''],
                in_domain = Some (py_str ''test'')\<rparr>"

definition req_plain :: PredictIn where
  "req_plain = \<lparr>in_text = py_str ''Obama spoke'', in_tokens = Some [], in_domain = None\<rparr>"

definition req_blank :: PredictIn where
  "req_blank = \<lparr>in_text = py_str ''   '', in_tokens = None, in_domain = None\<rparr>"

text \<open>
  A document whose entities are out of text order, overlap and repeat, and a pipeline
  that returns it.
\<close>

definition doc_unsorted :: doc where
  "doc_unsorted =
     \<lparr>ents = [\<lparr>ent_start_char = 6, ent_end_char = 11, ent_label = py_str ''GPE'',
                ent_text = py_str ''world''\<rparr>,
              \<lparr>ent_start_char = 0, ent_end_char = 5, ent_label = py_str ''PERSON'',
                ent_text = py_str ''Hello''\<rparr>,
              \<lparr>ent_start_char = 0, ent_end_char = 5, ent_label = py_str ''PERSON'',
                ent_text = py_str ''Hello''\<rparr>],
       toks = []\<rparr>"

definition nlp_unsorted :: "nat nlp" where
  "nlp_unsorted k t = (Inr doc_unsorted, Suc k)"

definition out_unsorted :: predict_out where
  "out_unsorted =
     \<lparr>out_text = py_str ''Hello world'',
       out_entities =
         [\<lparr>e_start = 6, e_end = 11, e_label = py_str ''GPE'', e_text = py_str ''world''\<rparr>,
          \<lparr>e_start = 0, e_end = 5, e_label = py_str ''PERSON'', e_text = py_str ''Hello''\<rparr>,
          \<lparr>e_start = 0, e_end = 5, e_label = py_str ''PERSON'', e_text = py_str ''Hello''\<rparr>],
       out_tokens = [py_str ''Hi'', py_str ''there''],
       out_domain = py_str ''test''\<rparr>"




definition body_blank :: json_body where
  "body_blank = \<lparr>body_text = Some (py_str ''   ''), body_tokens = None, body_domain = None\<rparr>"

definition body_no_text :: json_body where
  "body_no_text = \<lparr>body_text = None, body_tokens = None, body_domain = Some (py_str ''test'')\<rparr>"

definition doc_hello :: doc where
  "doc_hello = \<lparr>ents = [\<lparr>ent_start_char = 0, ent_end_char = 5, ent_label = py_str ''PERSON'',
                          ent_text = py_str ''Hello''\<rparr>],
                 toks = [\<lparr>tok_text = py_str ''Hello world''\<rparr>]\<rparr>"

definition doc_plain :: doc where
  "doc_plain = \<lparr>ents = [\<lparr>ent_start_char = 0, ent_end_char = 5, ent_label = py_str ''PERSON'',
                          ent_text = py_str ''Obama''\<rparr>],
                 toks = [\<lparr>tok_text = py_str ''Obama spoke''\<rparr>]\<rparr>"

definition out_hello :: predict_out where
  "out_hello = \<lparr>out_text = py_str ''Hello world'',
                 out_entities = [\<lparr>e_start = 0, e_end = 5, e_label = py_str ''PERSON'',
                                  e_text = py_str ''Hello''\<rparr>],
                 out_tokens = [py_str ''Hi'', py_str ''there''],
                 out_domain = py_str ''test''\<rparr>"

definition out_plain :: predict_out where
  "out_plain = \<lparr>out_text = py_str ''Obama spoke'',
                 out_entities = [\<lparr>e_start = 0, e_end = 5, e_label = py_str ''PERSON'',
                                  e_text = py_str ''Obama''\<rparr>],
                 out_tokens = [py_str ''Obama spoke''],
                 out_domain = []\<rparr>"

section \<open>Properties of the helpers\<close>

lemma str_or_empty: "str_or x [] = x"
  by (simp add: str_or_def)

lemma opt_str_or_empty: "opt_str_or x [] = (case x of None \<Rightarrow> [] | Some v \<Rightarrow> v)"
  by (simp add: opt_str_or_def str_or_empty split: option.split)

lemma py_strip_empty_iff: "py_strip s = [] \<longleftrightarrow> (\<forall>c \<in> set s. py_isspace c)"
proof -
  have "py_strip s = [] \<longleftrightarrow> dropWhile py_isspace (rev (dropWhile py_isspace s)) = []"
    by (simp add: py_strip_def)
  also have "\<dots> \<longleftrightarrow> (\<forall>c \<in> set (dropWhile py_isspace s). py_isspace c)"
    by simp
  also have "\<dots> \<longleftrightarrow> (\<forall>c \<in> set s. py_isspace c)"
  proof
    assume a: "\<forall>c \<in> set (dropWhile py_isspace s). py_isspace c"
    show "\<forall>c \<in> set s. py_isspace c"
    proof (cases "dropWhile py_isspace s")
      case Nil
      then show ?thesis by simp
    next
      case (Cons x xs)
      then have "\<not> py_isspace x" using hd_dropWhile [of py_isspace s] by simp
      moreover have "py_isspace x" using a Cons by simp
      ultimately show ?thesis by simp
    qed
  next
    assume "\<forall>c \<in> set s. py_isspace c"
    then show "\<forall>c \<in> set (dropWhile py_isspace s). py_isspace c"
      using set_dropWhileD by fastforce
  qed
  finally show ?thesis .
qed

lemma py_strip_decomp:
  "\<exists>a b. s = a @ py_strip s @ b \<and> (\<forall>c \<in> set a. py_isspace c) \<and> (\<forall>c \<in> set b. py_isspace c)"
proof -
  define u where "u = dropWhile py_isspace s"
  define a where "a = takeWhile py_isspace s"
  define b where "b = rev (takeWhile py_isspace (rev u))"
  have s: "s = a @ u" by (simp add: a_def u_def)
  have "py_strip s @ b = rev (takeWhile py_isspace (rev u) @ dropWhile py_isspace (rev u))"
    unfolding py_strip_def b_def u_def by (simp only: rev_append)
  also have "\<dots> = rev (rev u)" by (simp only: takeWhile_dropWhile_id)
  also have "\<dots> = u" by simp
  finally have u: "u = py_strip s @ b" by simp
  have "\<forall>c \<in> set a. py_isspace c" by (auto simp: a_def dest: set_takeWhileD)
  moreover have "\<forall>c \<in> set b. py_isspace c" by (auto simp: b_def dest: set_takeWhileD)
  ultimately show ?thesis using s u by blast
qed

lemma last_dropWhile: "dropWhile P xs \<noteq> [] \<Longrightarrow> last (dropWhile P xs) = last xs"
  by (induction xs) (auto split: if_splits)

lemma py_strip_ends:
  assumes "py_strip s \<noteq> []"
  shows "\<not> py_isspace (hd (py_strip s)) \<and> \<not> py_isspace (last (py_strip s))"
proof -
  define u where "u = dropWhile py_isspace s"
  define v where "v = dropWhile py_isspace (rev u)"
  have ps: "py_strip s = rev v" by (simp add: py_strip_def u_def v_def)
  with assms have v: "v \<noteq> []" by simp
  then have ru: "rev u \<noteq> []" by (auto simp: v_def)
  then have u: "u \<noteq> []" by simp
  have "last (py_strip s) = hd v" using v by (simp add: ps last_rev)
  moreover have "\<not> py_isspace (hd v)" using v unfolding v_def by (rule hd_dropWhile)
  moreover have "hd (py_strip s) = last v" using v by (simp add: ps hd_rev)
  moreover have "last v = last (rev u)" using v unfolding v_def by (rule last_dropWhile)
  moreover have "last (rev u) = hd u" using u by (simp add: last_rev)
  moreover have "\<not> py_isspace (hd u)" using u unfolding u_def by (rule hd_dropWhile)
  ultimately show ?thesis by simp
qed

lemma predict_blank:
  "py_strip (in_text p) = [] \<Longrightarrow> predict nlp m p = (Inl (HTTPException 400 ''Text is required''), m)"
  by (simp add: predict_def str_or_empty)

lemma predict_raises:
  "py_strip (in_text p) \<noteq> [] \<Longrightarrow> nlp m (py_strip (in_text p)) = (Inl e, m') \<Longrightarrow>
   predict nlp m p = (Inl (Unhandled e), m')"
  by (simp add: predict_def str_or_empty)

lemma predict_returns:
  "py_strip (in_text p) \<noteq> [] \<Longrightarrow> nlp m (py_strip (in_text p)) = (Inr d, m') \<Longrightarrow>
   predict nlp m p =
     (Inr \<lparr>out_text = py_strip (in_text p),
           out_entities =
             map (\<lambda>ent. \<lparr>e_start = ent_start_char ent, e_end = ent_end_char ent,
                         e_label = ent_label ent, e_text = ent_text ent\<rparr>) (ents d),
           out_tokens =
             (case in_tokens p of
                None \<Rightarrow> map tok_text (toks d)
              | Some ts \<Rightarrow> if ts = [] then map tok_text (toks d) else ts),
           out_domain = (case in_domain p of None \<Rightarrow> [] | Some v \<Rightarrow> v)\<rparr>, m')"
  by (simp add: predict_def str_or_empty opt_str_or_empty)

lemma predict_Inr_D:
  assumes "fst (predict nlp m p) = Inr r"
  shows "py_strip (in_text p) \<noteq> [] \<and>
         (\<exists>d m'. nlp m (py_strip (in_text p)) = (Inr d, m') \<and> predict nlp m p = (Inr r, m'))"
proof (cases "py_strip (in_text p) = []")
  case True
  with assms show ?thesis by (simp add: predict_blank)
next
  case False
  obtain x m' where x: "nlp m (py_strip (in_text p)) = (x, m')" by (cases "nlp m (py_strip (in_text p))")
  show ?thesis
  proof (cases x)
    case (Inl e)
    with assms False x show ?thesis by (simp add: predict_raises)
  next
    case (Inr d)
    with assms False x show ?thesis by (simp add: predict_returns)
  qed
qed

text \<open>The sample requests, evaluated.\<close>

lemma strip_hello: "py_strip (in_text req_hello) = py_str ''Hello world''"
  by (simp add: req_hello_def py_strip_def py_str_def py_isspace_def)

lemma strip_plain: "py_strip (in_text req_plain) = py_str ''Obama spoke''"
  by (simp add: req_plain_def py_strip_def py_str_def py_isspace_def)

lemma strip_blank: "py_strip (in_text req_blank) = []"
  by (simp add: req_blank_def py_strip_def py_str_def py_isspace_def)

lemma demo_hello: "nlp_demo 0 (py_str ''Hello world'') = (Inr doc_hello, 1)"
  by (simp add: nlp_demo_def doc_hello_def py_str_def)

lemma demo_plain: "nlp_demo 0 (py_str ''Obama spoke'') = (Inr doc_plain, 1)"
  by (simp add: nlp_demo_def doc_plain_def py_str_def)

lemma call_hello: "nlp_demo 0 (py_strip (in_text req_hello)) = (Inr doc_hello, 1)"
  by (simp add: strip_hello demo_hello)

lemma call_plain: "nlp_demo 0 (py_strip (in_text req_plain)) = (Inr doc_plain, 1)"
  by (simp add: strip_plain demo_plain)


lemma predict_hello: "predict nlp_demo 0 req_hello = (Inr out_hello, 1)"
  by (simp add: predict_def req_hello_def out_hello_def py_strip_def py_str_def py_isspace_def
      str_or_def opt_str_or_def nlp_demo_def)

lemma predict_plain: "predict nlp_demo 0 req_plain = (Inr out_plain, 1)"
  by (simp add: predict_def req_plain_def out_plain_def py_strip_def py_str_def py_isspace_def
      str_or_def opt_str_or_def nlp_demo_def Let_def)

lemma req_hello_fields:
  "in_tokens req_hello = Some [py_str ''Hi'', py_str ''there'']"
  "in_domain req_hello = Some (py_str ''test'')"
  by (simp_all add: req_hello_def)

lemma req_plain_fields:
  "in_tokens req_plain = Some []"
  "in_domain req_plain = None"
  by (simp_all add: req_plain_def)

lemma out_hello_fields:
  "out_text out_hello = py_str ''Hello world''"
  "out_entities out_hello =
     [\<lparr>e_start = 0, e_end = 5, e_label = py_str ''PERSON'', e_text = py_str ''Hello''\<rparr>]"
  "out_tokens out_hello = [py_str ''Hi'', py_str ''there'']"
  "out_domain out_hello = py_str ''test''"
  by (simp_all add: out_hello_def)

lemma out_plain_fields:
  "out_text out_plain = py_str ''Obama spoke''"
  "out_entities out_plain =
     [\<lparr>e_start = 0, e_end = 5, e_label = py_str ''PERSON'', e_text = py_str ''Obama''\<rparr>]"
  "out_tokens out_plain = [py_str ''Obama spoke'']"
  "out_domain out_plain = []"
  by (simp_all add: out_plain_def)

lemma doc_hello_fields:
  "ents doc_hello =
     [\<lparr>ent_start_char = 0, ent_end_char = 5, ent_label = py_str ''PERSON'',
       ent_text = py_str ''Hello''\<rparr>]"
  "toks doc_hello = [\<lparr>tok_text = py_str ''Hello world''\<rparr>]"
  by (simp_all add: doc_hello_def)

lemma doc_plain_fields:
  "ents doc_plain =
     [\<lparr>ent_start_char = 0, ent_end_char = 5, ent_label = py_str ''PERSON'',
       ent_text = py_str ''Obama''\<rparr>]"
  "toks doc_plain = [\<lparr>tok_text = py_str ''Obama spoke''\<rparr>]"
  by (simp_all add: doc_plain_def)

lemma predict_unsorted: "predict nlp_unsorted 0 req_hello = (Inr out_unsorted, 1)"
  by (simp add: predict_def req_hello_def out_unsorted_def doc_unsorted_def py_strip_def py_str_def
      py_isspace_def str_or_def opt_str_or_def nlp_unsorted_def Let_def)


lemma predict_blank_demo: "predict nlp_demo 0 req_blank = (Inl (HTTPException 400 ''Text is required''), 0)"
  by (simp add: predict_blank strip_blank)

section \<open>Request validation\<close>

text \<open>
  C1, as amended. A request whose \<open>text\<close> is present and holds nothing but whitespace
  (the empty text included) is answered with \<open>HTTPException(400, "Text is required")\<close>,
  whatever the model does: never with an exception of the model. The state of the model
  is the one before the request.
\<close>

theorem blank_text_is_bad_request:
  assumes "body_text b = Some t" and "list_all py_isspace t"
  shows "handle nlp m (POST_predict b) =
           (PredictReply (Inl (HTTPException 400 ''Text is required'')), m)"
proof -
  from assms(2) have "py_strip t = []"
    by (simp add: py_strip_empty_iff list_all_iff)
  then have "predict nlp m \<lparr>in_text = t, in_tokens = body_tokens b, in_domain = body_domain b\<rparr> =
               (Inl (HTTPException 400 ''Text is required''), m)"
    by (simp add: predict_blank)
  with assms(1) show ?thesis
    by (simp add: handle_def parse_PredictIn_def)
qed

theorem blank_text_is_bad_request_witness:
  "body_text body_blank = Some (py_str ''   '') \<and> list_all py_isspace (py_str ''   '') \<and>
   handle nlp_raises 0 (POST_predict body_blank) =
     (PredictReply (Inl (HTTPException 400 ''Text is required'')), 0)"
  using blank_text_is_bad_request [of body_blank "py_str ''   ''" nlp_raises 0]
  by (simp add: body_blank_def py_str_def py_isspace_def)

text \<open>
  C1 as written also covers a request with no \<open>text\<close> at all. \<open>PredictIn\<close> declares
  \<open>text: str\<close> without a default, so such a body never reaches \<open>predict\<close>: it is refused
  when the payload is built, and the answer is not the handler's "Text is required".
\<close>

theorem absent_text_counterexample:
  "fst (handle nlp_demo 0 (POST_predict body_no_text)) = PredictReply (Inl RequestValidationError) \<and>
   fst (handle nlp_demo 0 (POST_predict body_no_text)) \<noteq>
     PredictReply (Inl (HTTPException 400 ''Text is required''))"
  by (simp add: handle_def parse_PredictIn_def body_no_text_def)

section \<open>The response\<close>

text \<open>
  C2. When the caller gives a non-empty \<open>tokens\<close> list, the \<open>tokens\<close> of the response
  are that list, element for element: nothing of the model's tokens enters it.
\<close>

theorem caller_tokens_verbatim:
  assumes "in_tokens p = Some ts" and "ts \<noteq> []" and "fst (predict nlp m p) = Inr r"
  shows "out_tokens r = ts"
proof -
  from predict_Inr_D [OF assms(3)] obtain d m' where
    ne: "py_strip (in_text p) \<noteq> []" and
    call: "nlp m (py_strip (in_text p)) = (Inr d, m')" and
    res: "predict nlp m p = (Inr r, m')"
    by blast
  from predict_returns [of p nlp m d m'] ne call res assms(1,2) show ?thesis
    by auto
qed

theorem caller_tokens_verbatim_witness:
  "in_tokens req_hello = Some [py_str ''Hi'', py_str ''there''] \<and>
   [py_str ''Hi'', py_str ''there''] \<noteq> [] \<and>
   fst (predict nlp_demo 0 req_hello) = Inr out_hello \<and>
   out_tokens out_hello = [py_str ''Hi'', py_str ''there''] \<and>
   map tok_text (toks doc_hello) = [py_str ''Hello world'']"
  using caller_tokens_verbatim [of req_hello "[py_str ''Hi'', py_str ''there'']" nlp_demo 0 out_hello]
  by (simp add: predict_hello req_hello_fields out_hello_fields doc_hello_fields)

text \<open>
  C3. When the caller gives no \<open>tokens\<close>, or an empty list, the \<open>tokens\<close> of the response
  are the texts of the tokens of the document the model made from the trimmed text, in
  the model's order.
\<close>

theorem model_tokens_by_default:
  assumes "in_tokens p = None \<or> in_tokens p = Some []" and "fst (predict nlp m p) = Inr r"
  shows "\<exists>d. fst (nlp m (py_strip (in_text p))) = Inr d \<and> out_tokens r = map tok_text (toks d)"
proof -
  from predict_Inr_D [OF assms(2)] obtain d m' where
    ne: "py_strip (in_text p) \<noteq> []" and
    call: "nlp m (py_strip (in_text p)) = (Inr d, m')" and
    res: "predict nlp m p = (Inr r, m')"
    by blast
  from predict_returns [of p nlp m d m'] ne call res assms(1) have "out_tokens r = map tok_text (toks d)"
    by auto
  with call show ?thesis by simp
qed

theorem model_tokens_by_default_witness:
  "in_tokens req_plain = Some [] \<and>
   fst (predict nlp_demo 0 req_plain) = Inr out_plain \<and>
   fst (nlp_demo 0 (py_strip (in_text req_plain))) = Inr doc_plain \<and>
   out_tokens out_plain = map tok_text (toks doc_plain)"
  using model_tokens_by_default [of req_plain nlp_demo 0 out_plain]
  by (simp add: predict_plain strip_plain demo_plain req_plain_fields out_plain_fields doc_plain_fields)

text \<open>
  C4. A request whose text is not empty after trimming, on which the model returns a
  document, gets a response, and the \<open>text\<close> of the response is the trimmed text: the
  input text is that text between two runs of whitespace, and it neither starts nor ends
  with a whitespace character.
\<close>

theorem response_text_is_trimmed_input:
  assumes "py_strip (in_text p) \<noteq> []" and "fst (nlp m (py_strip (in_text p))) = Inr d"
  shows "\<exists>r. fst (predict nlp m p) = Inr r \<and> out_text r = py_strip (in_text p) \<and>
             (\<exists>a b. in_text p = a @ out_text r @ b \<and> list_all py_isspace a \<and> list_all py_isspace b) \<and>
             \<not> py_isspace (hd (out_text r)) \<and> \<not> py_isspace (last (out_text r))"
proof -
  obtain m' where call: "nlp m (py_strip (in_text p)) = (Inr d, m')"
    using assms(2) by (cases "nlp m (py_strip (in_text p))") simp
  define r where "r = \<lparr>out_text = py_strip (in_text p),
           out_entities =
             map (\<lambda>ent. \<lparr>e_start = ent_start_char ent, e_end = ent_end_char ent,
                         e_label = ent_label ent, e_text = ent_text ent\<rparr>) (ents d),
           out_tokens =
             (case in_tokens p of
                None \<Rightarrow> map tok_text (toks d)
              | Some ts \<Rightarrow> if ts = [] then map tok_text (toks d) else ts),
           out_domain = (case in_domain p of None \<Rightarrow> [] | Some v \<Rightarrow> v)\<rparr>"
  have res: "fst (predict nlp m p) = Inr r"
    using predict_returns [of p nlp m d m'] assms(1) call by (simp add: r_def)
  have rt: "out_text r = py_strip (in_text p)" by (simp add: r_def)
  from py_strip_decomp [of "in_text p"] obtain a b where
    "in_text p = a @ py_strip (in_text p) @ b" "\<forall>c \<in> set a. py_isspace c" "\<forall>c \<in> set b. py_isspace c"
    by blast
  then have dec: "\<exists>a b. in_text p = a @ out_text r @ b \<and> list_all py_isspace a \<and> list_all py_isspace b"
    unfolding rt list_all_iff by blast
  have "\<not> py_isspace (hd (out_text r)) \<and> \<not> py_isspace (last (out_text r))"
    unfolding rt using assms(1) by (rule py_strip_ends)
  with res rt dec show ?thesis by blast
qed

theorem response_text_is_trimmed_input_witness:
  "py_strip (in_text req_hello) \<noteq> [] \<and>
   fst (nlp_demo 0 (py_strip (in_text req_hello))) = Inr doc_hello \<and>
   in_text req_hello = py_str ''  Hello world '' \<and>
   (\<exists>r. fst (predict nlp_demo 0 req_hello) = Inr r \<and> out_text r = py_str ''Hello world'')"
proof -
  have ne: "py_strip (in_text req_hello) \<noteq> []"
    by (simp add: strip_hello py_str_def)
  have call: "fst (nlp_demo 0 (py_strip (in_text req_hello))) = Inr doc_hello"
    by (simp add: call_hello)
  have inp: "in_text req_hello = py_str ''  Hello world ''"
    by (simp add: req_hello_def)
  from response_text_is_trimmed_input [of req_hello nlp_demo 0 doc_hello, OF ne call]
  obtain r where "fst (predict nlp_demo 0 req_hello) = Inr r"
    and "out_text r = py_strip (in_text req_hello)"
    by blast
  then have "\<exists>r. fst (predict nlp_demo 0 req_hello) = Inr r \<and> out_text r = py_str ''Hello world''"
    by (auto simp only: strip_hello)
  with ne call inp show ?thesis by blast
qed




text \<open>
  C6. The \<open>entities\<close> of a response are the entities of the model's document, one record
  for each, in the model's order: the record at each position carries the \<open>start_char\<close>,
  \<open>end_char\<close>, \<open>label_\<close> and \<open>text\<close> of the entity at that position. Nothing is sorted,
  merged or dropped.
\<close>

theorem entities_follow_model_order:
  assumes "fst (predict nlp m p) = Inr r" and "fst (nlp m (py_strip (in_text p))) = Inr d"
  shows "length (out_entities r) = length (ents d) \<and>
         (\<forall>i < length (ents d).
            e_start (out_entities r ! i) = ent_start_char (ents d ! i) \<and>
            e_end (out_entities r ! i) = ent_end_char (ents d ! i) \<and>
            e_label (out_entities r ! i) = ent_label (ents d ! i) \<and>
            e_text (out_entities r ! i) = ent_text (ents d ! i))"
proof -
  from predict_Inr_D [OF assms(1)] obtain d' m' where
    ne: "py_strip (in_text p) \<noteq> []" and
    call: "nlp m (py_strip (in_text p)) = (Inr d', m')" and
    res: "predict nlp m p = (Inr r, m')"
    by blast
  from call assms(2) have d: "d' = d" by simp
  from predict_returns [of p nlp m d' m'] ne call res d
  have es: "out_entities r =
      map (\<lambda>ent. \<lparr>e_start = ent_start_char ent, e_end = ent_end_char ent,
                  e_label = ent_label ent, e_text = ent_text ent\<rparr>) (ents d)"
    by auto
  show ?thesis unfolding es by simp
qed

theorem entities_follow_model_order_witness:
  "fst (predict nlp_unsorted 0 req_hello) = Inr out_unsorted \<and>
   fst (nlp_unsorted 0 (py_strip (in_text req_hello))) = Inr doc_unsorted \<and>
   length (out_entities out_unsorted) = 3 \<and> length (ents doc_unsorted) = 3 \<and>
   map e_start (out_entities out_unsorted) = [6, 0, 0] \<and>
   e_start (out_entities out_unsorted ! 1) = ent_start_char (ents doc_unsorted ! 1) \<and>
   e_end (out_entities out_unsorted ! 1) = ent_end_char (ents doc_unsorted ! 1) \<and>
   e_label (out_entities out_unsorted ! 1) = ent_label (ents doc_unsorted ! 1) \<and>
   e_text (out_entities out_unsorted ! 1) = ent_text (ents doc_unsorted ! 1)"
proof -
  have res: "fst (predict nlp_unsorted 0 req_hello) = Inr out_unsorted"
    by (simp add: predict_unsorted)
  have call: "fst (nlp_unsorted 0 (py_strip (in_text req_hello))) = Inr doc_unsorted"
    by (simp add: nlp_unsorted_def)
  have len: "length (ents doc_unsorted) = 3" "(1::nat) < 3"
    by (simp_all add: doc_unsorted_def)
  have starts: "map e_start (out_entities out_unsorted) = [6, 0, 0]"
    by (simp add: out_unsorted_def)
  from entities_follow_model_order [of nlp_unsorted 0 req_hello out_unsorted doc_unsorted,
      OF res call] len
  have "length (out_entities out_unsorted) = 3"
    and "e_start (out_entities out_unsorted ! 1) = ent_start_char (ents doc_unsorted ! 1) \<and>
         e_end (out_entities out_unsorted ! 1) = ent_end_char (ents doc_unsorted ! 1) \<and>
         e_label (out_entities out_unsorted ! 1) = ent_label (ents doc_unsorted ! 1) \<and>
         e_text (out_entities out_unsorted ! 1) = ent_text (ents doc_unsorted ! 1)"
    by simp_all
  with res call len(1) starts show ?thesis by blast
qed

text \<open>
  C7. The \<open>domain\<close> of a response is the caller's \<open>domain\<close>, unchanged, when the request
  has one, and the empty string when it has none.
\<close>

theorem domain_echoed_or_empty:
  assumes "fst (predict nlp m p) = Inr r"
  shows "out_domain r = (case in_domain p of None \<Rightarrow> [] | Some v \<Rightarrow> v)"
proof -
  from predict_Inr_D [OF assms] obtain d m' where
    ne: "py_strip (in_text p) \<noteq> []" and
    call: "nlp m (py_strip (in_text p)) = (Inr d, m')" and
    res: "predict nlp m p = (Inr r, m')"
    by blast
  from predict_returns [of p nlp m d m'] ne call res show ?thesis
    by auto
qed

theorem domain_echoed_or_empty_witness:
  "fst (predict nlp_demo 0 req_hello) = Inr out_hello \<and>
   in_domain req_hello = Some (py_str ''test'') \<and> out_domain out_hello = py_str ''test'' \<and>
   fst (predict nlp_demo 0 req_plain) = Inr out_plain \<and>
   in_domain req_plain = None \<and> out_domain out_plain = []"
proof -
  have h: "fst (predict nlp_demo 0 req_hello) = Inr out_hello"
    by (simp add: predict_hello)
  have q: "fst (predict nlp_demo 0 req_plain) = Inr out_plain"
    by (simp add: predict_plain)
  from domain_echoed_or_empty [of nlp_demo 0 req_hello out_hello, OF h]
  have "out_domain out_hello = py_str ''test''"
    by (simp add: req_hello_fields)
  moreover from domain_echoed_or_empty [of nlp_demo 0 req_plain out_plain, OF q]
  have "out_domain out_plain = []"
    by (simp add: req_plain_fields)
  ultimately show ?thesis using h q by (simp add: req_hello_fields req_plain_fields)
qed

section \<open>The liveness probe\<close>

text \<open>
  C8. \<open>health\<close> takes no argument and returns the dictionary \<open>{"status": "ok"}\<close>. Served
  after any sequence of requests, whatever their outcome, \<open>GET /health\<close> gives that same
  reply and leaves the state of the model as it found it.
\<close>

theorem health_always_ok:
  "health = [(''status'', ''ok'')] \<and>
   handle nlp (snd (serve nlp m reqs)) GET_health =
     (HealthReply [(''status'', ''ok'')], snd (serve nlp m reqs))"
  by (simp add: health_def handle_def)

section \<open>Start-up\<close>

text \<open>
  C9. When \<open>spacy.load\<close> raises an exception, the application ends there with
  \<open>RuntimeError("Run: python -m spacy download en_core_web_sm")\<close>: no request is served,
  whatever requests are waiting, and the loader has been called once (its state is the
  one that single call left).
\<close>

theorem load_failure_is_fatal:
  assumes "spacy_load s = (Inl e, s')" and "is_Exception e"
  shows "run_app spacy_load s m reqs =
           (Inl (RuntimeError ''Run: python -m spacy download en_core_web_sm''), s')"
  using assms by (simp add: run_app_def load_nlp_def)

theorem load_failure_is_fatal_witness:
  "flaky_load 0 = (Inl (OtherException ''[E050] Can't find model''), 1) \<and>
   is_Exception (OtherException ''[E050] Can't find model'') \<and>
   run_app flaky_load 0 0 [GET_health, POST_predict body_blank] =
     (Inl (RuntimeError ''Run: python -m spacy download en_core_web_sm''), 1) \<and>
   \<not> isl (fst (flaky_load 1))"
proof -
  have f: "flaky_load 0 = (Inl (OtherException ''[E050] Can't find model''), 1)"
    by (simp add: flaky_load_def)
  have e: "is_Exception (OtherException ''[E050] Can't find model'')"
    by simp
  have "\<not> isl (fst (flaky_load 1))"
    by (simp add: flaky_load_def)
  with load_failure_is_fatal [of flaky_load 0 _ 1 0 "[GET_health, POST_predict body_blank]", OF f e] f e
  show ?thesis by blast
qed

section \<open>Validation comes before the model\<close>

text \<open>
  C10. Whenever \<open>predict\<close> fails with \<open>HTTPException(400, "Text is required")\<close>, the model
  was not called: its state is the one before the request, and \<open>predict\<close> gives the very
  same result with any other model in its place, one that always raises included.
\<close>

theorem rejected_request_skips_model:
  assumes "fst (predict nlp m p) = Inl (HTTPException 400 ''Text is required'')"
  shows "snd (predict nlp m p) = m \<and> predict nlp' m p = predict nlp m p"
proof (cases "py_strip (in_text p) = []")
  case True
  then show ?thesis by (simp add: predict_blank)
next
  case False
  obtain x m' where x: "nlp m (py_strip (in_text p)) = (x, m')"
    by (cases "nlp m (py_strip (in_text p))")
  show ?thesis
  proof (cases x)
    case (Inl e)
    with assms False x show ?thesis by (simp add: predict_raises)
  next
    case (Inr d)
    with assms False x show ?thesis by (simp add: predict_returns)
  qed
qed

theorem rejected_request_skips_model_witness:
  "fst (predict nlp_demo 0 req_blank) = Inl (HTTPException 400 ''Text is required'') \<and>
   snd (predict nlp_demo 0 req_blank) = 0 \<and>
   predict nlp_raises 0 req_blank = predict nlp_demo 0 req_blank \<and>
   snd (predict nlp_demo 0 req_plain) = 1"
proof -
  have b: "fst (predict nlp_demo 0 req_blank) = Inl (HTTPException 400 ''Text is required'')"
    by (simp add: predict_blank_demo)
  have "snd (predict nlp_demo 0 req_plain) = 1"
    by (simp add: predict_plain)
  with rejected_request_skips_model [of nlp_demo 0 req_blank nlp_raises, OF b] b
  show ?thesis by simp
qed

end
